theory Spec2Isabelle
  imports Complex_Main
begin

section \<open>Numeric primitives of the Python runtime\<close>

text \<open>
  The measurement engine computes on Python floats. They are idealised here as the
  real numbers: rounding, signed zeros, infinities and NaN are outside this model.
  The functions of the \<^verbatim>\<open>math\<close> module are the corresponding real functions, and the
  ones that raise on part of their domain return a sum, with the exception on the left.
  Where rounding decides a property, as for the upper end of the range of
  \<^verbatim>\<open>Vector3D.azimuth\<close>, the operation is modelled on binary64 floats in a section of
  its own.
\<close>

datatype error = ValueError | ZeroDivisionError | AttributeError

text \<open>\<^verbatim>\<open>math.sqrt\<close>: raises \<^verbatim>\<open>ValueError\<close> on a negative argument.\<close>

definition py_sqrt :: "real \<Rightarrow> error + real" where
  "py_sqrt x = (if x < 0 then Inl ValueError else Inr (sqrt x))"

text \<open>\<^verbatim>\<open>math.acos\<close>: raises \<^verbatim>\<open>ValueError\<close> outside \<open>[-1, 1]\<close>.\<close>

definition py_acos :: "real \<Rightarrow> error + real" where
  "py_acos x = (if x < - 1 \<or> 1 < x then Inl ValueError else Inr (arccos x))"

text \<open>Float division \<^verbatim>\<open>a / b\<close>: raises \<^verbatim>\<open>ZeroDivisionError\<close> when \<open>b = 0\<close>.\<close>

definition py_div :: "real \<Rightarrow> real \<Rightarrow> error + real" where
  "py_div a b = (if b = 0 then Inl ZeroDivisionError else Inr (a / b))"

text \<open>
  Float remainder \<^verbatim>\<open>a % b\<close>, which takes the sign of the divisor: \<open>a - b * floor (a / b)\<close>.
  Every use in the source has the literal divisor \<^verbatim>\<open>360\<close>, so the division by zero
  that \<^verbatim>\<open>%\<close> raises cannot occur and is not a branch here.
\<close>

definition py_mod :: "real \<Rightarrow> real \<Rightarrow> real" where
  "py_mod a b = a - b * of_int \<lfloor>a / b\<rfloor>"

text \<open>\<^verbatim>\<open>math.atan2(y, x)\<close>: the angle of the point \<open>(x, y)\<close> in \<open>(-pi, pi]\<close>, and 0 at the origin.\<close>

definition atan2 :: "real \<Rightarrow> real \<Rightarrow> real" where
  "atan2 y x =
     (if 0 < x then arctan (y / x)
      else if x < 0 then (if 0 \<le> y then arctan (y / x) + pi else arctan (y / x) - pi)
      else if 0 < y then pi / 2
      else if y < 0 then - (pi / 2)
      else 0)"

definition degrees :: "real \<Rightarrow> real" where
  "degrees r = r * (180 / pi)"

definition radians :: "real \<Rightarrow> real" where
  "radians d = d * (pi / 180)"

section \<open>geometry.py\<close>

subsection \<open>Point\<close>

record point =
  p_x :: real
  p_y :: real
  p_z :: real

text \<open>\<^verbatim>\<open>Point(Vector((x, y, z)))\<close>: the constructor copies the three coordinates.\<close>

definition Point :: "real \<Rightarrow> real \<Rightarrow> real \<Rightarrow> point" where
  "Point x y z = \<lparr>p_x = x, p_y = y, p_z = z\<rparr>"

text \<open>\<^verbatim>\<open>Point.rotated(self, center, azimuth)\<close>.\<close>

definition rotated :: "point \<Rightarrow> point \<Rightarrow> real \<Rightarrow> error + point" where
  "rotated self center azimuth =
     (let x_a = p_x self; y_a = p_y self; z_a = p_z self;
          x_c = p_x center; y_c = p_y center
      in case py_sqrt ((x_c - x_a)\<^sup>2 + (y_c - y_a)\<^sup>2) of
           Inl e \<Rightarrow> Inl e
         | Inr length_c_a \<Rightarrow>
             (let x_b = length_c_a * cos (radians azimuth);
                  y_b = length_c_a * sin (radians azimuth)
              in Inr (Point x_b y_b z_a)))"

definition point_add :: "point \<Rightarrow> point \<Rightarrow> point" where
  "point_add self other =
     Point (p_x self + p_x other) (p_y self + p_y other) (p_z self + p_z other)"

definition point_sub :: "point \<Rightarrow> point \<Rightarrow> point" where
  "point_sub self other =
     Point (p_x self - p_x other) (p_y self - p_y other) (p_z self - p_z other)"

subsection \<open>Vector3D\<close>

record vector3d =
  v_x :: real
  v_y :: real
  v_z :: real

text \<open>
  \<^verbatim>\<open>Vector3D.__init__(self, *args)\<close>: two points, three scalars, or any other number of
  arguments, for which the \<^verbatim>\<open>ValueError\<close> raised inside the constructor is caught there
  and the vector is set to zero.
\<close>

datatype vector3d_args =
  Args2 point point
| Args3 real real real
| Args_other

fun Vector3D :: "vector3d_args \<Rightarrow> vector3d" where
  "Vector3D (Args2 point1 point2) =
     \<lparr>v_x = p_x point2 - p_x point1, v_y = p_y point2 - p_y point1,
      v_z = p_z point2 - p_z point1\<rparr>"
| "Vector3D (Args3 x y z) = \<lparr>v_x = x, v_y = y, v_z = z\<rparr>"
| "Vector3D Args_other = \<lparr>v_x = 0, v_y = 0, v_z = 0\<rparr>"

definition multiply_minus :: "vector3d \<Rightarrow> vector3d" where
  "multiply_minus self = \<lparr>v_x = - v_x self, v_y = - v_y self, v_z = - v_z self\<rparr>"

text \<open>\<^verbatim>\<open>Vector3D.length\<close>.\<close>

definition length_v :: "vector3d \<Rightarrow> error + real" where
  "length_v self = py_sqrt ((v_x self)\<^sup>2 + (v_y self)\<^sup>2 + (v_z self)\<^sup>2)"

text \<open>
  \<^verbatim>\<open>Vector3D.azimuth\<close> mutates the vector: the result is the returned angle together with
  the vector as the call leaves it. This is the method in real arithmetic; on floats it
  is \<open>azimuth_double\<close> below.
\<close>

definition azimuth :: "vector3d \<Rightarrow> real \<times> vector3d" where
  "azimuth self =
     (let self1 = (if v_z self < 0 then multiply_minus self else self)
      in (py_mod (degrees (atan2 (v_x self1) (v_y self1))) 360, self1))"

text \<open>\<^verbatim>\<open>Vector3D.dip\<close>.\<close>

definition dip :: "vector3d \<Rightarrow> error + real" where
  "dip self =
     (case py_sqrt ((v_x self)\<^sup>2 + (v_y self)\<^sup>2) of
        Inl e \<Rightarrow> Inl e
      | Inr horizontal_length \<Rightarrow> Inr (degrees (atan2 horizontal_length (v_z self))))"

text \<open>
  \<^verbatim>\<open>Vector3D.edge2face\<close> mutates the vector; on an exception the vector stays as the
  call to \<^verbatim>\<open>azimuth\<close> left it, which is the left component.
\<close>

definition edge2face :: "vector3d \<Rightarrow> (error \<times> vector3d) + vector3d" where
  "edge2face self =
     (let (az, self1) = azimuth self
      in case py_sqrt ((v_x self1)\<^sup>2 + (v_y self1)\<^sup>2) of
           Inl e \<Rightarrow> Inl (e, self1)
         | Inr len \<Rightarrow>
             (let self2 = self1\<lparr>v_z := - len\<rparr>;
                  self3 = self2\<lparr>v_x := v_z self2 * sin (radians az)\<rparr>;
                  self4 = self3\<lparr>v_y := v_z self3 * cos (radians az)\<rparr>
              in Inr self4))"

text \<open>The log: one event for each call of the logger, with the data its message shows.\<close>

datatype log_event =
  Error_degrees_with error
| Error_init_face point error
| Error_init_edge point error
| Error_processing_edge error
| Error_processing_face error
| Warning_edge_less_than_2
| Warning_face_less_than_3
| Info_processed_edges nat
| Info_processed_faces nat
| Info_layer_found
| Warning_no_annotations
| Warning_unexpected_points nat
| Info_parsed nat nat

text \<open>
  \<^verbatim>\<open>Vector3D.degrees_with\<close>: every exception is caught, logged, and replaced by the
  result \<^verbatim>\<open>0.0\<close>.
\<close>

definition degrees_with_raw :: "vector3d \<Rightarrow> vector3d \<Rightarrow> error + real" where
  "degrees_with_raw self other =
     (let dot_product = v_x self * v_x other + v_y self * v_y other + v_z self * v_z other
      in case length_v self of
           Inl e \<Rightarrow> Inl e
         | Inr l1 \<Rightarrow>
             (case length_v other of
                Inl e \<Rightarrow> Inl e
              | Inr l2 \<Rightarrow>
                  (let lengths_product = l1 * l2
                   in case py_div dot_product lengths_product of
                        Inl e \<Rightarrow> Inl e
                      | Inr q \<Rightarrow>
                          (case py_acos q of
                             Inl e \<Rightarrow> Inl e
                           | Inr r \<Rightarrow> Inr (degrees r)))))"

definition degrees_with :: "vector3d \<Rightarrow> vector3d \<Rightarrow> real \<times> log_event list" where
  "degrees_with self other =
     (case degrees_with_raw self other of
        Inl e \<Rightarrow> (0, [Error_degrees_with e])
      | Inr angle \<Rightarrow> (angle, []))"

text \<open>\<^verbatim>\<open>Vector3D.__mul__\<close>: the cross product.\<close>

definition cross :: "vector3d \<Rightarrow> vector3d \<Rightarrow> vector3d" where
  "cross self other =
     Vector3D (Args3
       (v_y self * v_z other - v_y other * v_z self)
       (- (v_x self * v_z other - v_x other * v_z self))
       (v_x self * v_y other - v_x other * v_y self))"

subsection \<open>Face\<close>

text \<open>
  An attribute that \<^verbatim>\<open>__init__\<close> has not assigned yet does not exist on the object; it
  is \<open>None\<close> here. The constructor catches every exception, logs it, and returns the
  object with the attributes assigned so far.
\<close>

record face =
  f_point1 :: point
  f_point2 :: point
  f_point3 :: point
  f_center :: "point option"
  f_ab :: "vector3d option"
  f_azimuth :: "real option"
  f_dip :: "real option"
  f_area :: "real option"
  f_rotated_azimuth :: "real option"
  f_degree :: "real option"

definition face_calculate_center :: "face \<Rightarrow> point" where
  "face_calculate_center self =
     (let x = (p_x (f_point1 self) + p_x (f_point2 self) + p_x (f_point3 self)) / 3;
          y = (p_y (f_point1 self) + p_y (f_point2 self) + p_y (f_point3 self)) / 3;
          z = (p_z (f_point1 self) + p_z (f_point2 self) + p_z (f_point3 self)) / 3
      in Point x y z)"

definition ab_vector :: "face \<Rightarrow> vector3d" where
  "ab_vector self =
     (let a = Vector3D (Args2 (f_point2 self) (f_point1 self));
          b = Vector3D (Args2 (f_point3 self) (f_point1 self))
      in cross a b)"

definition calculate_degree :: "face \<Rightarrow> real \<times> log_event list" where
  "calculate_degree self =
     (let a = Vector3D (Args2 (f_point2 self) (f_point1 self));
          b = Vector3D (Args2 (f_point2 self) (f_point3 self))
      in degrees_with a b)"

definition calculate_area :: "face \<Rightarrow> error + real" where
  "calculate_area self =
     (case f_ab self of
        None \<Rightarrow> Inl AttributeError
      | Some ab \<Rightarrow> (case length_v ab of Inl e \<Rightarrow> Inl e | Inr l \<Rightarrow> Inr (l / 2)))"

text \<open>\<^verbatim>\<open>Face.__init__\<close>: the constructed object and what the constructor logged.\<close>

definition Face :: "point \<Rightarrow> point \<Rightarrow> point \<Rightarrow> face \<times> log_event list" where
  "Face point1 point2 point3 =
     (let self0 = \<lparr>f_point1 = point1, f_point2 = point2, f_point3 = point3,
                   f_center = None, f_ab = None, f_azimuth = None, f_dip = None,
                   f_area = None, f_rotated_azimuth = None, f_degree = None\<rparr>;
          self1 = self0\<lparr>f_center := Some (face_calculate_center self0)\<rparr>;
          self2 = self1\<lparr>f_ab := Some (ab_vector self1)\<rparr>;
          (az, ab1) = azimuth (ab_vector self1);
          self3 = self2\<lparr>f_ab := Some ab1, f_azimuth := Some az\<rparr>
      in case dip ab1 of
           Inl e \<Rightarrow> (self3, [Error_init_face (face_calculate_center self3) e])
         | Inr d \<Rightarrow>
             (let self4 = self3\<lparr>f_dip := Some d\<rparr>
              in case calculate_area self4 of
                   Inl e \<Rightarrow> (self4, [Error_init_face (face_calculate_center self4) e])
                 | Inr ar \<Rightarrow>
                     (let self5 = self4\<lparr>f_area := Some ar, f_rotated_azimuth := Some 0\<rparr>;
                          (dg, lg) = calculate_degree self5
                      in (self5\<lparr>f_degree := Some dg\<rparr>, lg))))"

subsection \<open>Edge\<close>

record edge =
  e_point1 :: point
  e_point2 :: point
  e_center :: "point option"
  e_a :: "vector3d option"
  e_length :: "real option"
  e_azimuth :: "real option"
  e_dip :: "real option"
  e_edge_azimuth :: "real option"
  e_edge_dip :: "real option"
  e_rotated_azimuth :: "real option"

definition edge_calculate_center :: "edge \<Rightarrow> point" where
  "edge_calculate_center self =
     (let x = (p_x (e_point1 self) + p_x (e_point2 self)) / 2;
          y = (p_y (e_point1 self) + p_y (e_point2 self)) / 2;
          z = (p_z (e_point1 self) + p_z (e_point2 self)) / 2
      in Point x y z)"

text \<open>\<^verbatim>\<open>Edge.__init__\<close>: the constructed object and what the constructor logged.\<close>

definition Edge :: "point \<Rightarrow> point \<Rightarrow> edge \<times> log_event list" where
  "Edge point1 point2 =
     (let self0 = \<lparr>e_point1 = point1, e_point2 = point2, e_center = None, e_a = None,
                   e_length = None, e_azimuth = None, e_dip = None,
                   e_edge_azimuth = None, e_edge_dip = None, e_rotated_azimuth = None\<rparr>;
          self1 = self0\<lparr>e_center := Some (edge_calculate_center self0)\<rparr>;
          a0 = Vector3D (Args2 point1 point2);
          self2 = self1\<lparr>e_a := Some a0\<rparr>
      in case length_v a0 of
           Inl e \<Rightarrow> (self2, [Error_init_edge (edge_calculate_center self2) e])
         | Inr l \<Rightarrow>
             (let self3 = self2\<lparr>e_length := Some l\<rparr>;
                  (az, a1) = azimuth a0;
                  self4 = self3\<lparr>e_a := Some a1, e_azimuth := Some az\<rparr>
              in case dip a1 of
                   Inl e \<Rightarrow> (self4, [Error_init_edge (edge_calculate_center self4) e])
                 | Inr d \<Rightarrow>
                     (let self5 = self4\<lparr>e_dip := Some d\<rparr>
                      in case edge2face a1 of
                           Inl (e, a2) \<Rightarrow>
                             (self5\<lparr>e_a := Some a2\<rparr>,
                              [Error_init_edge (edge_calculate_center self5) e])
                         | Inr a2 \<Rightarrow>
                             (let (eaz, a3) = azimuth a2;
                                  self6 = self5\<lparr>e_a := Some a3, e_edge_azimuth := Some eaz\<rparr>
                              in case dip a3 of
                                   Inl e \<Rightarrow>
                                     (self6, [Error_init_edge (edge_calculate_center self6) e])
                                 | Inr ed \<Rightarrow>
                                     (self6\<lparr>e_edge_dip := Some ed,
                                             e_rotated_azimuth := Some 0\<rparr>, [])))))"

section \<open>parser.py\<close>

text \<open>
  \<^verbatim>\<open>MeasurementsParser\<close> holds the point groups read from the annotation strokes. The
  two batch functions read them, return the processed entities in a fresh list, and log.
\<close>

record measurements_parser =
  faces :: "point list list"
  edges :: "point list list"

text \<open>
  The host's annotation data, as \<^verbatim>\<open>parse_dimensions\<close> reads it:
  \<^verbatim>\<open>bpy.data.grease_pencils\<close> maps a name to an annotation object, whose \<^verbatim>\<open>layers\<close> map a
  name to a layer; a layer is the list of its frames, a frame the list of its strokes, and
  a stroke the list of the coordinates \<^verbatim>\<open>co\<close> of its points.
\<close>

type_synonym stroke = "(real \<times> real \<times> real) list"
type_synonym gp_frame = "stroke list"
type_synonym gp_layer = "gp_frame list"
type_synonym grease_pencil = "string \<rightharpoonup> gp_layer"
type_synonym blend_data = "string \<rightharpoonup> grease_pencil"

text \<open>\<^verbatim>\<open>Point(p)\<close> for a stroke point \<^verbatim>\<open>p\<close>: the branch of the constructor that reads \<^verbatim>\<open>p.co\<close>.\<close>

definition Point_co :: "real \<times> real \<times> real \<Rightarrow> point" where
  "Point_co co = (case co of (x, y, z) \<Rightarrow> \<lparr>p_x = x, p_y = y, p_z = z\<rparr>)"

text \<open>
  The two nested loops of \<^verbatim>\<open>parse_dimensions\<close>: a stroke of three points is appended to
  \<^verbatim>\<open>faces\<close>, a stroke of two points to \<^verbatim>\<open>edges\<close>, and any other stroke is logged and
  dropped.
\<close>

fun strokes_loop ::
  "stroke list \<Rightarrow> measurements_parser \<Rightarrow> measurements_parser \<times> log_event list" where
  "strokes_loop [] self = (self, [])"
| "strokes_loop (points # rest) self =
     (let point_objects = map Point_co points
      in if length points = 3 then
           strokes_loop rest (self\<lparr>faces := faces self @ [point_objects]\<rparr>)
         else if length points = 2 then
           strokes_loop rest (self\<lparr>edges := edges self @ [point_objects]\<rparr>)
         else
           (let (self', lg) = strokes_loop rest self
            in (self', Warning_unexpected_points (length points) # lg)))"

fun frames_loop ::
  "gp_layer \<Rightarrow> measurements_parser \<Rightarrow> measurements_parser \<times> log_event list" where
  "frames_loop [] self = (self, [])"
| "frames_loop (frame # rest) self =
     (let (self1, lg1) = strokes_loop frame self;
          (self2, lg2) = frames_loop rest self1
      in (self2, lg1 @ lg2))"

text \<open>
  \<^verbatim>\<open>parse_dimensions\<close>: a missing annotation object or layer raises \<^verbatim>\<open>KeyError\<close>, which
  is caught with a warning and leaves both lists empty. The handlers for any other
  exception have no branch: nothing else raises on this data.
\<close>

definition parse_dimensions ::
  "blend_data \<Rightarrow> measurements_parser \<Rightarrow> measurements_parser \<times> log_event list" where
  "parse_dimensions bdata self =
     (let self0 = self\<lparr>faces := [], edges := []\<rparr>
      in case bdata ''Annotations'' of
           None \<Rightarrow> (self0, [Warning_no_annotations])
         | Some gpencil \<Rightarrow>
             (case gpencil ''RulerData3D'' of
                None \<Rightarrow> (self0, [Warning_no_annotations])
              | Some layer \<Rightarrow>
                  (let (self1, lg) = frames_loop layer self0
                   in (self1,
                       [Info_layer_found] @ lg
                         @ [Info_parsed (length (faces self1)) (length (edges self1))]))))"

text \<open>\<^verbatim>\<open>MeasurementsParser.__init__\<close>: both lists empty, then \<^verbatim>\<open>parse_dimensions\<close>.\<close>

definition MeasurementsParser :: "blend_data \<Rightarrow> measurements_parser \<times> log_event list" where
  "MeasurementsParser bdata = parse_dimensions bdata \<lparr>faces = [], edges = []\<rparr>"

text \<open>The calibration delta, computed at the head of both batch functions.\<close>

definition calibration_delta :: "real \<Rightarrow> real \<Rightarrow> real" where
  "calibration_delta az_real az_model =
     (let pre_delta = az_real - az_model
      in if pre_delta < 0 then pre_delta + 360 else py_mod pre_delta 360)"

text \<open>The wrap of \<^verbatim>\<open>rot_azimuth\<close>, written out in the body of both loops.\<close>

definition rotated_azimuth :: "real \<Rightarrow> real \<Rightarrow> real" where
  "rotated_azimuth raw delta =
     (let rot_azimuth = raw + delta
      in if rot_azimuth \<ge> 360 then rot_azimuth - 360
         else if rot_azimuth < 0 then rot_azimuth + 360
         else rot_azimuth)"

text \<open>
  The body of the loop of \<^verbatim>\<open>get_processed_edges\<close> for one group: the edges it appends
  and what it logs. Reading \<^verbatim>\<open>edge.azimuth\<close> on an object whose constructor stopped
  before assigning it raises \<^verbatim>\<open>AttributeError\<close>, caught by the loop's handler.
\<close>

definition process_edge_points :: "real \<Rightarrow> point list \<Rightarrow> edge list \<times> log_event list" where
  "process_edge_points delta edge_points =
     (if length edge_points \<ge> 2 then
        (let (edge, lg) = Edge (edge_points ! 0) (edge_points ! 1)
         in case e_azimuth edge of
              None \<Rightarrow> ([], lg @ [Error_processing_edge AttributeError])
            | Some az \<Rightarrow>
                ([edge\<lparr>e_rotated_azimuth := Some (rotated_azimuth az delta)\<rparr>], lg))
      else ([], [Warning_edge_less_than_2]))"

fun edges_loop :: "real \<Rightarrow> point list list \<Rightarrow> edge list \<times> log_event list" where
  "edges_loop delta [] = ([], [])"
| "edges_loop delta (edge_points # rest) =
     (let (es, lg) = process_edge_points delta edge_points;
          (es', lg') = edges_loop delta rest
      in (es @ es', lg @ lg'))"

definition get_processed_edges ::
  "measurements_parser \<Rightarrow> real \<Rightarrow> real \<Rightarrow> edge list \<times> log_event list" where
  "get_processed_edges self az_real az_model =
     (let delta = calibration_delta az_real az_model;
          (processed_edges, lg) = edges_loop delta (edges self)
      in (processed_edges, lg @ [Info_processed_edges (length processed_edges)]))"

definition process_face_points :: "real \<Rightarrow> point list \<Rightarrow> face list \<times> log_event list" where
  "process_face_points delta face_points =
     (if length face_points \<ge> 3 then
        (let (face, lg) = Face (face_points ! 0) (face_points ! 1) (face_points ! 2)
         in case f_azimuth face of
              None \<Rightarrow> ([], lg @ [Error_processing_face AttributeError])
            | Some az \<Rightarrow>
                ([face\<lparr>f_rotated_azimuth := Some (rotated_azimuth az delta)\<rparr>], lg))
      else ([], [Warning_face_less_than_3]))"

fun faces_loop :: "real \<Rightarrow> point list list \<Rightarrow> face list \<times> log_event list" where
  "faces_loop delta [] = ([], [])"
| "faces_loop delta (face_points # rest) =
     (let (fs, lg) = process_face_points delta face_points;
          (fs', lg') = faces_loop delta rest
      in (fs @ fs', lg @ lg'))"

definition get_processed_faces ::
  "measurements_parser \<Rightarrow> real \<Rightarrow> real \<Rightarrow> face list \<times> log_event list" where
  "get_processed_faces self az_real az_model =
     (let delta = calibration_delta az_real az_model;
          (processed_faces, lg) = faces_loop delta (faces self)
      in (processed_faces, lg @ [Info_processed_faces (length processed_faces)]))"

section \<open>Vector3D.azimuth on binary64 floats\<close>

text \<open>
  Whether the wrap of \<^verbatim>\<open>azimuth\<close> stays below 360 depends on rounding, so \<^verbatim>\<open>azimuth\<close> is
  modelled a second time, on binary64 floats. An operation that rounds returns the nearest
  float of 53 significant bits, ties to even. The exponent is unbounded: overflow and
  subnormal numbers are outside the model, and \<^verbatim>\<open>azimuth\<close> meets neither on the float32
  coordinates of stroke points. Infinities and NaN are outside it as well.
\<close>

text \<open>The integer nearest to \<open>r\<close>, the even one of the two when \<open>r\<close> lies half way.\<close>

definition round_half_even :: "real \<Rightarrow> int" where
  "round_half_even r =
     (let n = \<lfloor>r\<rfloor>; d = r - of_int n
      in if d < 1 / 2 then n else if 1 / 2 < d then n + 1 else if even n then n else n + 1)"

text \<open>
  The float nearest to \<open>x\<close>: with \<open>2^e \<le> |x| < 2^(e+1)\<close>, the nearest multiple of
  \<open>2^(e-52)\<close>.
\<close>

definition fl :: "real \<Rightarrow> real" where
  "fl x =
     (if x = 0 then 0
      else (let u = 2 powr (of_int \<lfloor>log 2 \<bar>x\<bar>\<rfloor> - 52)
            in u * of_int (round_half_even (x / u))))"

text \<open>A finite float: its value, or negative zero; \<open>Val 0\<close> is positive zero.\<close>

datatype double = Neg_zero | Val real

fun d_val :: "double \<Rightarrow> real" where
  "d_val Neg_zero = 0"
| "d_val (Val x) = x"

text \<open>
  Unary minus, which the assignments of \<^verbatim>\<open>multiply_minus\<close> apply: exact, and it flips
  the sign of a zero.
\<close>

fun d_neg :: "double \<Rightarrow> double" where
  "d_neg Neg_zero = Val 0"
| "d_neg (Val x) = (if x = 0 then Neg_zero else Val (- x))"

text \<open>
  \<^verbatim>\<open>math.atan2(y, x)\<close>. For \<open>y\<close> a zero the interpreter returns the zero \<open>y\<close> when the
  sign of \<open>x\<close> is positive, and \<open>pi\<close> with the sign of \<open>y\<close> when it is negative; any other
  pair goes to the C library, taken as correctly rounded.
\<close>

definition d_atan2 :: "double \<Rightarrow> double \<Rightarrow> double" where
  "d_atan2 y x =
     (if d_val y = 0 then
        (if x \<noteq> Neg_zero \<and> 0 \<le> d_val x then y
         else if y = Neg_zero then Val (- fl pi) else Val (fl pi))
      else Val (fl (atan2 (d_val y) (d_val x))))"

text \<open>
  \<^verbatim>\<open>math.degrees(r)\<close>: the rounded product of \<open>r\<close> and the constant \<^verbatim>\<open>180.0 / pi\<close>, itself
  the rounded quotient of 180 and the float \<^verbatim>\<open>pi\<close>.
\<close>

fun d_degrees :: "double \<Rightarrow> double" where
  "d_degrees Neg_zero = Neg_zero"
| "d_degrees (Val r) = Val (fl (r * fl (180 / fl pi)))"

text \<open>Rounding toward zero, the quotient of the C library's \<^verbatim>\<open>fmod\<close>.\<close>

definition trunc :: "real \<Rightarrow> int" where
  "trunc r = (if 0 \<le> r then \<lfloor>r\<rfloor> else \<lceil>r\<rceil>)"

text \<open>
  \<^verbatim>\<open>v % w\<close> on floats, for a divisor \<open>wx\<close> other than zero: \<^verbatim>\<open>fmod\<close> is exact; a
  remainder other than zero whose sign differs from the divisor's has the divisor added,
  and that sum is rounded; a zero remainder takes the sign of the divisor.
\<close>

definition d_mod :: "double \<Rightarrow> real \<Rightarrow> double" where
  "d_mod v wx =
     (let vx = d_val v; md = vx - wx * of_int (trunc (vx / wx))
      in if md \<noteq> 0 then (if (wx < 0) \<noteq> (md < 0) then Val (fl (md + wx)) else Val md)
         else (if wx < 0 then Neg_zero else Val 0))"

text \<open>\<^verbatim>\<open>Vector3D\<close> with float components, \<^verbatim>\<open>multiply_minus\<close> and \<^verbatim>\<open>azimuth\<close> on it.\<close>

record vector3d_double =
  dv_x :: double
  dv_y :: double
  dv_z :: double

definition multiply_minus_double :: "vector3d_double \<Rightarrow> vector3d_double" where
  "multiply_minus_double self =
     \<lparr>dv_x = d_neg (dv_x self), dv_y = d_neg (dv_y self), dv_z = d_neg (dv_z self)\<rparr>"

definition azimuth_double :: "vector3d_double \<Rightarrow> double \<times> vector3d_double" where
  "azimuth_double self =
     (let self1 = (if d_val (dv_z self) < 0 then multiply_minus_double self else self)
      in (d_mod (d_degrees (d_atan2 (dv_x self1) (dv_y self1))) 360, self1))"

section \<open>Facts about the numeric primitives\<close>

lemma py_sqrt_sum2 [simp]: "py_sqrt (a\<^sup>2 + b\<^sup>2) = Inr (sqrt (a\<^sup>2 + b\<^sup>2))"
  by (simp add: py_sqrt_def not_less)

lemma py_sqrt_sum3 [simp]: "py_sqrt (a\<^sup>2 + b\<^sup>2 + c\<^sup>2) = Inr (sqrt (a\<^sup>2 + b\<^sup>2 + c\<^sup>2))"
  by (simp add: py_sqrt_def not_less)

lemma py_mod_360_bounds: "0 \<le> py_mod a 360 \<and> py_mod a 360 < 360"
proof -
  have "of_int \<lfloor>a / 360\<rfloor> \<le> a / 360" "a / 360 < of_int \<lfloor>a / 360\<rfloor> + 1"
    by linarith+
  then show ?thesis unfolding py_mod_def by (simp add: field_simps)
qed


lemma atan2_bounds: "- pi < atan2 a b \<and> atan2 a b \<le> pi"
proof -
  have lb: "- (pi / 2) < arctan (a / b)" and ub: "arctan (a / b) < pi / 2"
    by (rule arctan_lbound, rule arctan_ubound)
  have pos: "0 < pi" by simp
  consider "0 < b" | "b < 0" "0 \<le> a" | "b < 0" "a < 0" | "b = 0"
    by linarith
  then show ?thesis
  proof cases
    case 1
    then have "atan2 a b = arctan (a / b)" by (simp add: atan2_def)
    with lb ub pos show ?thesis by linarith
  next
    case 2
    then have "a / b \<le> 0" by (simp add: divide_nonneg_neg)
    then have le: "arctan (a / b) \<le> 0" by (simp add: arctan_le_zero_iff)
    from 2 have "atan2 a b = arctan (a / b) + pi" by (simp add: atan2_def)
    with lb le pos show ?thesis by linarith
  next
    case 3
    then have "0 < a / b" by (simp add: divide_neg_neg)
    then have gt: "0 < arctan (a / b)" by (simp add: zero_less_arctan_iff)
    from 3 have "atan2 a b = arctan (a / b) - pi" by (simp add: atan2_def)
    with ub gt pos show ?thesis by linarith
  next
    case 4
    then have "atan2 a b = pi / 2 \<or> atan2 a b = - (pi / 2) \<or> atan2 a b = 0"
      by (simp add: atan2_def)
    with pos show ?thesis by linarith
  qed
qed

lemma atan2_nonneg:
  assumes "0 \<le> a"
  shows "0 \<le> atan2 a b \<and> atan2 a b \<le> pi"
proof -
  have pos: "0 < pi" by simp
  have "0 \<le> atan2 a b"
  proof (cases "0 < b")
    case True
    with assms have "0 \<le> a / b" by simp
    then have "0 \<le> arctan (a / b)" by (simp add: zero_le_arctan_iff)
    with True show ?thesis by (simp add: atan2_def)
  next
    case False
    have lb: "- (pi / 2) < arctan (a / b)" by (rule arctan_lbound)
    from False assms
    have "atan2 a b = arctan (a / b) + pi \<or> atan2 a b = pi / 2 \<or> atan2 a b = 0"
      by (simp add: atan2_def)
    with lb pos show ?thesis by linarith
  qed
  with atan2_bounds[of a b] show ?thesis by simp
qed

section \<open>Closed forms of the geometry operations\<close>

lemma dip_Inr: "dip v = Inr (degrees (atan2 (sqrt ((v_x v)\<^sup>2 + (v_y v)\<^sup>2)) (v_z v)))"
  by (simp add: dip_def)

lemma length_v_Inr: "length_v v = Inr (sqrt ((v_x v)\<^sup>2 + (v_y v)\<^sup>2 + (v_z v)\<^sup>2))"
  by (simp add: length_v_def)

lemma azimuth_snd: "snd (azimuth v) = (if v_z v < 0 then multiply_minus v else v)"
  by (simp add: azimuth_def Let_def)

lemma azimuth_fst:
  "fst (azimuth v) = py_mod (degrees (atan2 (v_x (snd (azimuth v))) (v_y (snd (azimuth v))))) 360"
  by (simp add: azimuth_def Let_def)

lemma azimuth_range: "0 \<le> fst (azimuth v) \<and> fst (azimuth v) < 360"
  unfolding azimuth_fst by (rule py_mod_360_bounds)

lemma edge2face_Inr:
  "edge2face v =
     Inr \<lparr>v_x = - sqrt ((v_x (snd (azimuth v)))\<^sup>2 + (v_y (snd (azimuth v)))\<^sup>2)
                 * sin (radians (fst (azimuth v))),
          v_y = - sqrt ((v_x (snd (azimuth v)))\<^sup>2 + (v_y (snd (azimuth v)))\<^sup>2)
                 * cos (radians (fst (azimuth v))),
          v_z = - sqrt ((v_x (snd (azimuth v)))\<^sup>2 + (v_y (snd (azimuth v)))\<^sup>2)\<rparr>"
  by (simp add: edge2face_def Let_def split: prod.splits)

lemma Edge_log: "snd (Edge p1 p2) = []"
  by (simp add: Edge_def Let_def length_v_Inr dip_Inr edge2face_Inr split: prod.splits)

lemma Edge_points: "e_point1 (fst (Edge p1 p2)) = p1 \<and> e_point2 (fst (Edge p1 p2)) = p2"
  by (simp add: Edge_def Let_def length_v_Inr dip_Inr edge2face_Inr split: prod.splits)

lemma Edge_length:
  "e_length (fst (Edge p1 p2)) =
     Some (sqrt ((p_x p2 - p_x p1)\<^sup>2 + (p_y p2 - p_y p1)\<^sup>2 + (p_z p2 - p_z p1)\<^sup>2))"
  by (simp add: Edge_def Let_def length_v_Inr dip_Inr edge2face_Inr split: prod.splits)

lemma Edge_azimuth:
  "e_azimuth (fst (Edge p1 p2)) = Some (fst (azimuth (Vector3D (Args2 p1 p2))))"
  by (simp add: Edge_def Let_def length_v_Inr dip_Inr edge2face_Inr split: prod.splits)

lemma Edge_edge_azimuth:
  "e_edge_azimuth (fst (Edge p1 p2)) =
     (case edge2face (snd (azimuth (Vector3D (Args2 p1 p2)))) of
        Inl e \<Rightarrow> None | Inr a2 \<Rightarrow> Some (fst (azimuth a2)))"
  by (simp add: Edge_def Let_def length_v_Inr dip_Inr edge2face_Inr split: prod.splits)

lemma Edge_edge_dip:
  "e_edge_dip (fst (Edge p1 p2)) =
     (case edge2face (snd (azimuth (Vector3D (Args2 p1 p2)))) of
        Inl e \<Rightarrow> None
      | Inr a2 \<Rightarrow> (case dip (snd (azimuth a2)) of Inl e \<Rightarrow> None | Inr d \<Rightarrow> Some d))"
  by (simp add: Edge_def Let_def length_v_Inr dip_Inr edge2face_Inr split: prod.splits)

section \<open>Closed forms of the batch functions\<close>

lemma process_edge_points_long:
  "2 \<le> length g \<Longrightarrow>
   process_edge_points d g =
     ([fst (Edge (g ! 0) (g ! 1))
         \<lparr>e_rotated_azimuth :=
            Some (rotated_azimuth (fst (azimuth (Vector3D (Args2 (g ! 0) (g ! 1))))) d)\<rparr>], [])"
  using Edge_log[of "g ! 0" "g ! 1"] Edge_azimuth[of "g ! 0" "g ! 1"]
  by (simp add: process_edge_points_def case_prod_beta)

lemma process_edge_points_short:
  "length g < 2 \<Longrightarrow> process_edge_points d g = ([], [Warning_edge_less_than_2])"
  by (simp add: process_edge_points_def)

lemma edges_loop_fst:
  "fst (edges_loop d gs) =
     map (\<lambda>g. fst (Edge (g ! 0) (g ! 1))
         \<lparr>e_rotated_azimuth :=
            Some (rotated_azimuth (fst (azimuth (Vector3D (Args2 (g ! 0) (g ! 1))))) d)\<rparr>)
       (filter (\<lambda>g. 2 \<le> length g) gs)"
proof (induction gs)
  case Nil
  show ?case by simp
next
  case (Cons g gs)
  show ?case
  proof (cases "2 \<le> length g")
    case True
    with Cons show ?thesis
      by (simp add: process_edge_points_long case_prod_beta)
  next
    case False
    then have "length g < 2" by simp
    with Cons False show ?thesis
      by (simp add: process_edge_points_short case_prod_beta)
  qed
qed

lemma edges_loop_snd:
  "snd (edges_loop d gs) =
     map (\<lambda>g. Warning_edge_less_than_2) (filter (\<lambda>g. length g < 2) gs)"
proof (induction gs)
  case Nil
  show ?case by simp
next
  case (Cons g gs)
  show ?case
  proof (cases "2 \<le> length g")
    case True
    with Cons show ?thesis
      by (simp add: process_edge_points_long case_prod_beta)
  next
    case False
    then have "length g < 2" by simp
    with Cons False show ?thesis
      by (simp add: process_edge_points_short case_prod_beta)
  qed
qed

lemma get_processed_edges_fst:
  "fst (get_processed_edges self ar am) = fst (edges_loop (calibration_delta ar am) (edges self))"
  by (simp add: get_processed_edges_def Let_def case_prod_beta)

lemma get_processed_edges_snd:
  "snd (get_processed_edges self ar am) =
     snd (edges_loop (calibration_delta ar am) (edges self))
       @ [Info_processed_edges (length (fst (edges_loop (calibration_delta ar am) (edges self))))]"
  by (simp add: get_processed_edges_def Let_def case_prod_beta)

lemma processed_edge_azimuths:
  assumes "e \<in> set (fst (get_processed_edges self ar am))"
  shows "\<exists>a. e_azimuth e = Some a \<and> 0 \<le> a \<and> a < 360 \<and>
             e_rotated_azimuth e = Some (rotated_azimuth a (calibration_delta ar am))"
proof -
  from assms obtain g where
    e: "e = fst (Edge (g ! 0) (g ! 1))
         \<lparr>e_rotated_azimuth :=
            Some (rotated_azimuth (fst (azimuth (Vector3D (Args2 (g ! 0) (g ! 1)))))
                   (calibration_delta ar am))\<rparr>"
    unfolding get_processed_edges_fst edges_loop_fst by auto
  show ?thesis
    using azimuth_range[of "Vector3D (Args2 (g ! 0) (g ! 1))"]
    by (simp add: e Edge_azimuth)
qed

lemma Face_azimuth:
  "f_azimuth (fst (Face p1 p2 p3)) =
     Some (fst (azimuth (cross (Vector3D (Args2 p2 p1)) (Vector3D (Args2 p3 p1)))))"
  by (simp add: Face_def Let_def ab_vector_def dip_Inr calculate_area_def length_v_Inr
      split: prod.splits)

lemma Face_ab:
  "f_ab (fst (Face p1 p2 p3)) =
     Some (snd (azimuth (cross (Vector3D (Args2 p2 p1)) (Vector3D (Args2 p3 p1)))))"
  by (simp add: Face_def Let_def ab_vector_def dip_Inr calculate_area_def length_v_Inr
      split: prod.splits)

lemma Face_area:
  "f_area (fst (Face p1 p2 p3)) =
     (case length_v (snd (azimuth (cross (Vector3D (Args2 p2 p1)) (Vector3D (Args2 p3 p1))))) of
        Inl e \<Rightarrow> None | Inr l \<Rightarrow> Some (l / 2))"
  by (simp add: Face_def Let_def ab_vector_def dip_Inr calculate_area_def length_v_Inr
      split: prod.splits)

lemma Face_points:
  "f_point1 (fst (Face p1 p2 p3)) = p1 \<and> f_point2 (fst (Face p1 p2 p3)) = p2
   \<and> f_point3 (fst (Face p1 p2 p3)) = p3"
  by (simp add: Face_def Let_def ab_vector_def dip_Inr calculate_area_def length_v_Inr
      split: prod.splits)

lemma process_face_points_long:
  "3 \<le> length g \<Longrightarrow>
   process_face_points d g =
     ([fst (Face (g ! 0) (g ! 1) (g ! 2))
         \<lparr>f_rotated_azimuth :=
            Some (rotated_azimuth
              (fst (azimuth (cross (Vector3D (Args2 (g ! 1) (g ! 0)))
                                   (Vector3D (Args2 (g ! 2) (g ! 0)))))) d)\<rparr>],
      snd (Face (g ! 0) (g ! 1) (g ! 2)))"
  using Face_azimuth[of "g ! 0" "g ! 1" "g ! 2"]
  by (simp add: process_face_points_def case_prod_beta)

lemma faces_loop_fst:
  "fst (faces_loop d gs) =
     map (\<lambda>g. fst (Face (g ! 0) (g ! 1) (g ! 2))
         \<lparr>f_rotated_azimuth :=
            Some (rotated_azimuth
              (fst (azimuth (cross (Vector3D (Args2 (g ! 1) (g ! 0)))
                                   (Vector3D (Args2 (g ! 2) (g ! 0)))))) d)\<rparr>)
       (filter (\<lambda>g. 3 \<le> length g) gs)"
proof (induction gs)
  case Nil
  show ?case by simp
next
  case (Cons g gs)
  show ?case
  proof (cases "3 \<le> length g")
    case True
    with Cons show ?thesis
      by (simp add: process_face_points_long case_prod_beta)
  next
    case False
    with Cons show ?thesis
      by (simp add: process_face_points_def case_prod_beta)
  qed
qed

lemma get_processed_faces_fst:
  "fst (get_processed_faces self ar am) = fst (faces_loop (calibration_delta ar am) (faces self))"
  by (simp add: get_processed_faces_def Let_def case_prod_beta)

lemma processed_face_azimuths:
  assumes "f \<in> set (fst (get_processed_faces self ar am))"
  shows "\<exists>a. f_azimuth f = Some a \<and> 0 \<le> a \<and> a < 360 \<and>
             f_rotated_azimuth f = Some (rotated_azimuth a (calibration_delta ar am))"
proof -
  from assms obtain g where
    f: "f = fst (Face (g ! 0) (g ! 1) (g ! 2))
         \<lparr>f_rotated_azimuth :=
            Some (rotated_azimuth
              (fst (azimuth (cross (Vector3D (Args2 (g ! 1) (g ! 0)))
                                   (Vector3D (Args2 (g ! 2) (g ! 0))))))
              (calibration_delta ar am))\<rparr>"
    unfolding get_processed_faces_fst faces_loop_fst by auto
  show ?thesis
    using azimuth_range[of "cross (Vector3D (Args2 (g ! 1) (g ! 0)))
                                   (Vector3D (Args2 (g ! 2) (g ! 0)))"]
    by (simp add: f Face_azimuth)
qed

section \<open>Azimuth correction\<close>






lemma calibration_delta_same: "calibration_delta x x = 0"
  by (simp add: calibration_delta_def Let_def py_mod_def)



lemma azimuth_example_north:
  "fst (azimuth (Vector3D (Args2 (Point 0 0 0) (Point 0 1 0)))) = 0"
  by (simp add: azimuth_def Let_def Point_def atan2_def degrees_def py_mod_def)







text \<open>
  C3. A zero calibration delta is the identity: with \<open>az_real = az_model = x\<close> the delta
  is 0, the correction returns every raw azimuth in \<open>[0, 360)\<close> unchanged, and every edge
  and face that the batch functions return has its rotated azimuth equal to its raw one.
\<close>

theorem zero_delta_identity:
  assumes "0 \<le> a" and "a < 360"
  shows "rotated_azimuth a (calibration_delta x x) = a
       \<and> (\<forall>e \<in> set (fst (get_processed_edges self x x)).
            e_rotated_azimuth e = e_azimuth e \<and> e_azimuth e \<noteq> None)
       \<and> (\<forall>f \<in> set (fst (get_processed_faces self x x)).
            f_rotated_azimuth f = f_azimuth f \<and> f_azimuth f \<noteq> None)"
proof -
  have id: "rotated_azimuth b (calibration_delta x x) = b" if "0 \<le> b" "b < 360" for b
    using that by (simp add: calibration_delta_same rotated_azimuth_def)
  have es: "\<forall>e \<in> set (fst (get_processed_edges self x x)).
            e_rotated_azimuth e = e_azimuth e \<and> e_azimuth e \<noteq> None"
  proof
    fix e assume "e \<in> set (fst (get_processed_edges self x x))"
    then obtain b where b: "e_azimuth e = Some b" "0 \<le> b" "b < 360"
        "e_rotated_azimuth e = Some (rotated_azimuth b (calibration_delta x x))"
      using processed_edge_azimuths by blast
    then show "e_rotated_azimuth e = e_azimuth e \<and> e_azimuth e \<noteq> None"
      by (simp add: id)
  qed
  have fs: "\<forall>f \<in> set (fst (get_processed_faces self x x)).
            f_rotated_azimuth f = f_azimuth f \<and> f_azimuth f \<noteq> None"
  proof
    fix f assume "f \<in> set (fst (get_processed_faces self x x))"
    then obtain b where b: "f_azimuth f = Some b" "0 \<le> b" "b < 360"
        "f_rotated_azimuth f = Some (rotated_azimuth b (calibration_delta x x))"
      using processed_face_azimuths by blast
    then show "f_rotated_azimuth f = f_azimuth f \<and> f_azimuth f \<noteq> None"
      by (simp add: id)
  qed
  from id[OF assms] es fs show ?thesis by blast
qed

theorem zero_delta_identity_witness:
  "(0::real) \<le> 350 \<and> (350::real) < 360
   \<and> rotated_azimuth 350 (calibration_delta 123 123) = 350
   \<and> map e_rotated_azimuth (fst (get_processed_edges
        \<lparr>faces = [], edges = [[Point 0 0 0, Point 0 1 0]]\<rparr> 123 123)) = [Some 0]"
proof -
  let ?self = "\<lparr>faces = [], edges = [[Point 0 0 0, Point 0 1 0]]\<rparr>"
  let ?e = "fst (Edge (Point 0 0 0) (Point 0 1 0))
              \<lparr>e_rotated_azimuth := Some (rotated_azimuth 0 (calibration_delta 123 123))\<rparr>"
  have h: "(0::real) \<le> 350" "(350::real) < 360" by simp_all
  note inst = zero_delta_identity[OF h, of 123 ?self]
  from inst have val: "rotated_azimuth 350 (calibration_delta 123 123) = 350" by blast
  from inst have eball: "\<forall>e \<in> set (fst (get_processed_edges ?self 123 123)).
      e_rotated_azimuth e = e_azimuth e \<and> e_azimuth e \<noteq> None" by blast
  have es: "fst (get_processed_edges ?self 123 123) = [?e]"
    by (simp add: get_processed_edges_fst edges_loop_fst azimuth_example_north
        del: edges_loop.simps Vector3D.simps)
  then have "?e \<in> set (fst (get_processed_edges ?self 123 123))"
    by (simp only: list.set insertI1)
  with eball have eq: "e_rotated_azimuth ?e = e_azimuth ?e" by blast
  have eaz: "e_azimuth ?e = Some 0"
    using azimuth_example_north by (simp add: Edge_azimuth)
  from eq eaz have "map e_rotated_azimuth (fst (get_processed_edges ?self 123 123)) = [Some 0]"
    by (simp only: es list.map)
  with val show ?thesis by simp
qed

section \<open>Batch processing of edge groups\<close>

lemma edges_loop_length:
  "length (fst (edges_loop d gs)) = length (filter (\<lambda>g. 2 \<le> length g) gs)"
  by (simp only: edges_loop_fst length_map)

lemma edges_loop_endpoints:
  "map (\<lambda>e. (e_point1 e, e_point2 e)) (fst (edges_loop d gs)) =
     map (\<lambda>g. (g ! 0, g ! 1)) (filter (\<lambda>g. 2 \<le> length g) gs)"
  by (simp add: edges_loop_fst Edge_points comp_def del: edges_loop.simps)

lemma strokes_loop_edges:
  "edges (fst (strokes_loop ss self)) =
     edges self @ map (map Point_co) (filter (\<lambda>s. length s = 2) ss)"
  by (induction ss arbitrary: self) (simp_all add: Let_def case_prod_beta)

lemma strokes_loop_faces:
  "faces (fst (strokes_loop ss self)) =
     faces self @ map (map Point_co) (filter (\<lambda>s. length s = 3) ss)"
  by (induction ss arbitrary: self) (simp_all add: Let_def case_prod_beta)

lemma strokes_loop_log:
  "snd (strokes_loop ss self) =
     map (\<lambda>s. Warning_unexpected_points (length s))
       (filter (\<lambda>s. length s \<noteq> 3 \<and> length s \<noteq> 2) ss)"
  by (induction ss arbitrary: self) (simp_all add: Let_def case_prod_beta)

lemma frames_loop_edges:
  "edges (fst (frames_loop fs self)) =
     edges self @ map (map Point_co) (filter (\<lambda>s. length s = 2) (concat fs))"
  by (induction fs arbitrary: self) (simp_all add: case_prod_beta strokes_loop_edges)

lemma frames_loop_faces:
  "faces (fst (frames_loop fs self)) =
     faces self @ map (map Point_co) (filter (\<lambda>s. length s = 3) (concat fs))"
  by (induction fs arbitrary: self) (simp_all add: case_prod_beta strokes_loop_faces)

lemma frames_loop_log:
  "snd (frames_loop fs self) =
     map (\<lambda>s. Warning_unexpected_points (length s))
       (filter (\<lambda>s. length s \<noteq> 3 \<and> length s \<noteq> 2) (concat fs))"
  by (induction fs arbitrary: self) (simp_all add: case_prod_beta strokes_loop_log)

lemma MeasurementsParser_layer:
  assumes "bdata ''Annotations'' = Some gpencil" "gpencil ''RulerData3D'' = Some layer"
  shows "edges (fst (MeasurementsParser bdata)) =
           map (map Point_co) (filter (\<lambda>s. length s = 2) (concat layer))"
    and "faces (fst (MeasurementsParser bdata)) =
           map (map Point_co) (filter (\<lambda>s. length s = 3) (concat layer))"
    and "snd (MeasurementsParser bdata) =
           [Info_layer_found]
           @ map (\<lambda>s. Warning_unexpected_points (length s))
               (filter (\<lambda>s. length s \<noteq> 3 \<and> length s \<noteq> 2) (concat layer))
           @ [Info_parsed (length (filter (\<lambda>s. length s = 3) (concat layer)))
                          (length (filter (\<lambda>s. length s = 2) (concat layer)))]"
  using assms
  by (simp_all add: MeasurementsParser_def parse_dimensions_def Let_def case_prod_beta
      frames_loop_edges frames_loop_faces frames_loop_log)

lemma filter_filter_two:
  "filter (\<lambda>g. 2 \<le> length g) (map (map f) (filter (\<lambda>s. length s = 2) ss))
     = map (map f) (filter (\<lambda>s. length s = 2) ss)"
  by (induction ss) simp_all

lemma filter_short_two:
  "filter (\<lambda>g. length g < 2) (map (map f) (filter (\<lambda>s. length s = 2) ss)) = []"
  by (induction ss) simp_all

text \<open>
  C4. The parser keeps a stroke as an edge group only when it has exactly two points and
  logs a warning for a stroke of any other size than two or three. The edges that the
  batch then returns are the 2-point strokes, in stroke order, and the batch logs no
  warning and no error of its own. For strokes of two and of four points the parser logs
  one warning, for the 4-point stroke, and the batch returns exactly one edge, between the
  two points of the 2-point stroke.
\<close>

theorem batch_skips_malformed_stroke:
  assumes "bdata ''Annotations'' = Some gpencil" and "gpencil ''RulerData3D'' = Some layer"
  shows "map (\<lambda>e. (e_point1 e, e_point2 e))
           (fst (get_processed_edges (fst (MeasurementsParser bdata)) az_real az_model))
         = map (\<lambda>s. (Point_co (s ! 0), Point_co (s ! 1)))
             (filter (\<lambda>s. length s = 2) (concat layer))
       \<and> snd (MeasurementsParser bdata)
         = [Info_layer_found]
           @ map (\<lambda>s. Warning_unexpected_points (length s))
               (filter (\<lambda>s. length s \<noteq> 3 \<and> length s \<noteq> 2) (concat layer))
           @ [Info_parsed (length (filter (\<lambda>s. length s = 3) (concat layer)))
                          (length (filter (\<lambda>s. length s = 2) (concat layer)))]
       \<and> snd (get_processed_edges (fst (MeasurementsParser bdata)) az_real az_model)
         = [Info_processed_edges (length (filter (\<lambda>s. length s = 2) (concat layer)))]
       \<and> (concat layer = [[a, b], [c, d, e, f]] \<longrightarrow>
            map (\<lambda>e. (e_point1 e, e_point2 e))
              (fst (get_processed_edges (fst (MeasurementsParser bdata)) az_real az_model))
            = [(Point_co a, Point_co b)]
          \<and> snd (MeasurementsParser bdata)
            = [Info_layer_found, Warning_unexpected_points 4, Info_parsed 0 1]
          \<and> snd (get_processed_edges (fst (MeasurementsParser bdata)) az_real az_model)
            = [Info_processed_edges 1])"
proof -
  let ?two = "filter (\<lambda>s. length s = 2) (concat layer)"
  note parsed = MeasurementsParser_layer[where bdata = bdata and gpencil = gpencil
      and layer = layer, OF assms]
  have ends: "map (\<lambda>e. (e_point1 e, e_point2 e))
           (fst (get_processed_edges (fst (MeasurementsParser bdata)) az_real az_model))
         = map (\<lambda>s. (Point_co (s ! 0), Point_co (s ! 1))) ?two"
  proof -
    have "map (\<lambda>g. (g ! 0, g ! 1)) (map (map Point_co) ?two)
            = map (\<lambda>s. (Point_co (s ! 0), Point_co (s ! 1))) ?two"
      by (induction "concat layer") auto
    then show ?thesis
      by (simp only: get_processed_edges_fst edges_loop_endpoints parsed(1) filter_filter_two)
  qed
  have blog: "snd (get_processed_edges (fst (MeasurementsParser bdata)) az_real az_model)
         = [Info_processed_edges (length ?two)]"
    by (simp only: get_processed_edges_snd edges_loop_snd edges_loop_length parsed(1)
        filter_filter_two filter_short_two list.map append_Nil length_map)
  have inst: "concat layer = [[a, b], [c, d, e, f]] \<longrightarrow>
            map (\<lambda>e. (e_point1 e, e_point2 e))
              (fst (get_processed_edges (fst (MeasurementsParser bdata)) az_real az_model))
            = [(Point_co a, Point_co b)]
          \<and> snd (MeasurementsParser bdata)
            = [Info_layer_found, Warning_unexpected_points 4, Info_parsed 0 1]
          \<and> snd (get_processed_edges (fst (MeasurementsParser bdata)) az_real az_model)
            = [Info_processed_edges 1]"
  proof
    assume c: "concat layer = [[a, b], [c, d, e, f]]"
    show "map (\<lambda>e. (e_point1 e, e_point2 e))
              (fst (get_processed_edges (fst (MeasurementsParser bdata)) az_real az_model))
            = [(Point_co a, Point_co b)]
          \<and> snd (MeasurementsParser bdata)
            = [Info_layer_found, Warning_unexpected_points 4, Info_parsed 0 1]
          \<and> snd (get_processed_edges (fst (MeasurementsParser bdata)) az_real az_model)
            = [Info_processed_edges 1]"
      unfolding ends blog parsed(3) c by simp
  qed
  from ends parsed(3) blog inst show ?thesis by blast
qed

theorem batch_skips_malformed_stroke_witness:
  "[''Annotations'' \<mapsto>
      [''RulerData3D'' \<mapsto>
         ([[[(0, 0, 0), (1, 0, 0)], [(0, 0, 0), (0, 1, 0), (1, 1, 0), (1, 0, 0)]]] :: gp_layer)]]
     ''Annotations''
     = Some [''RulerData3D'' \<mapsto>
         ([[[(0, 0, 0), (1, 0, 0)], [(0, 0, 0), (0, 1, 0), (1, 1, 0), (1, 0, 0)]]] :: gp_layer)]
   \<and> [''RulerData3D'' \<mapsto>
         ([[[(0, 0, 0), (1, 0, 0)], [(0, 0, 0), (0, 1, 0), (1, 1, 0), (1, 0, 0)]]] :: gp_layer)]
     ''RulerData3D''
     = Some ([[[(0, 0, 0), (1, 0, 0)], [(0, 0, 0), (0, 1, 0), (1, 1, 0), (1, 0, 0)]]] :: gp_layer)
   \<and> map (\<lambda>e. (e_point1 e, e_point2 e))
       (fst (get_processed_edges (fst (MeasurementsParser
          [''Annotations'' \<mapsto>
             [''RulerData3D'' \<mapsto>
                [[[(0, 0, 0), (1, 0, 0)], [(0, 0, 0), (0, 1, 0), (1, 1, 0), (1, 0, 0)]]]]])) 0 0))
     = [(Point_co (0, 0, 0), Point_co (1, 0, 0))]
   \<and> snd (MeasurementsParser
          [''Annotations'' \<mapsto>
             [''RulerData3D'' \<mapsto>
                [[[(0, 0, 0), (1, 0, 0)], [(0, 0, 0), (0, 1, 0), (1, 1, 0), (1, 0, 0)]]]]])
     = [Info_layer_found, Warning_unexpected_points 4, Info_parsed 0 1]
   \<and> snd (get_processed_edges (fst (MeasurementsParser
          [''Annotations'' \<mapsto>
             [''RulerData3D'' \<mapsto>
                [[[(0, 0, 0), (1, 0, 0)], [(0, 0, 0), (0, 1, 0), (1, 1, 0), (1, 0, 0)]]]]])) 0 0)
     = [Info_processed_edges 1]"
proof -
  let ?layer = "[[[(0, 0, 0), (1, 0, 0)], [(0, 0, 0), (0, 1, 0), (1, 1, 0), (1, 0, 0)]]]
                  :: gp_layer"
  let ?g = "[''RulerData3D'' \<mapsto> ?layer]"
  let ?b = "[''Annotations'' \<mapsto> ?g]"
  have h1: "?b ''Annotations'' = Some ?g" by simp
  have h2: "?g ''RulerData3D'' = Some ?layer" by simp
  have c: "concat ?layer = [[(0, 0, 0), (1, 0, 0)], [(0, 0, 0), (0, 1, 0), (1, 1, 0), (1, 0, 0)]]"
    by simp
  note inst = batch_skips_malformed_stroke[where bdata = ?b and gpencil = ?g and layer = ?layer
      and a = "(0, 0, 0)" and b = "(1, 0, 0)" and c = "(0, 0, 0)" and d = "(0, 1, 0)"
      and e = "(1, 1, 0)" and f = "(1, 0, 0)" and az_real = 0 and az_model = 0, OF h1 h2]
  from inst c have
    "map (\<lambda>e. (e_point1 e, e_point2 e))
       (fst (get_processed_edges (fst (MeasurementsParser ?b)) 0 0))
     = [(Point_co (0, 0, 0), Point_co (1, 0, 0))]
     \<and> snd (MeasurementsParser ?b)
       = [Info_layer_found, Warning_unexpected_points 4, Info_parsed 0 1]
     \<and> snd (get_processed_edges (fst (MeasurementsParser ?b)) 0 0) = [Info_processed_edges 1]"
    by blast
  with h1 h2 show ?thesis by blast
qed

section \<open>Point.rotated\<close>

lemma rotated_Inr:
  "rotated p c a =
     Inr (Point (sqrt ((p_x c - p_x p)\<^sup>2 + (p_y c - p_y p)\<^sup>2) * cos (radians a))
                (sqrt ((p_x c - p_x p)\<^sup>2 + (p_y c - p_y p)\<^sup>2) * sin (radians a))
                (p_z p))"
  by (simp add: rotated_def Let_def)

text \<open>
  C5. The code computes the radius from the center and places the result at that radius
  from the origin: the center's coordinates are not added. From \<open>p = (0,0,0)\<close>, center
  \<open>(1,0,0)\<close> and azimuth 0 the radius is 1 and the code returns \<open>(1,0,0)\<close>, where the
  center translated by \<open>(r cos a, r sin a)\<close> is \<open>(2,0,0)\<close>.
\<close>

theorem rotated_omits_center:
  "rotated (Point 0 0 0) (Point 1 0 0) 0 = Inr (Point 1 0 0)
   \<and> Point (p_x (Point 1 0 0) + 1 * cos (radians 0)) (p_y (Point 1 0 0) + 1 * sin (radians 0))
        (p_z (Point 0 0 0)) = Point 2 0 0
   \<and> Point 1 0 0 \<noteq> Point 2 0 0"
  by (simp add: rotated_Inr radians_def Point_def)

section \<open>Vector3D.azimuth and Vector3D.dip\<close>

lemma round_half_even_between:
  assumes "of_int lo \<le> r" "r \<le> of_int hi"
  shows "lo \<le> round_half_even r \<and> round_half_even r \<le> hi"
proof -
  let ?n = "\<lfloor>r\<rfloor>"
  have lo: "lo \<le> ?n" using assms(1) by (simp add: le_floor_iff)
  have hi: "?n \<le> hi" using assms(2) by (simp add: floor_le_iff)
  have up: "?n + 1 \<le> hi" if "r \<noteq> of_int ?n"
  proof -
    from that have "of_int ?n < r" using of_int_floor_le[of r] by linarith
    with assms(2) have "of_int ?n < (of_int hi :: real)" by linarith
    then have "?n < hi" by simp
    then show ?thesis by simp
  qed
  have "round_half_even r = ?n \<or> (round_half_even r = ?n + 1 \<and> r \<noteq> of_int ?n)"
    by (auto simp: round_half_even_def Let_def)
  with lo hi up show ?thesis by auto
qed

lemma binade:
  assumes "0 < x"
  shows "2 powr of_int \<lfloor>log 2 x\<rfloor> \<le> x \<and> x < 2 powr (of_int \<lfloor>log 2 x\<rfloor> + 1)"
proof -
  have "of_int \<lfloor>log 2 x\<rfloor> \<le> log 2 x" by simp
  then have a: "2 powr of_int \<lfloor>log 2 x\<rfloor> \<le> x"
    using assms by (simp add: powr_le_iff)
  have "log 2 x < of_int \<lfloor>log 2 x\<rfloor> + 1" by linarith
  then have b: "x < 2 powr (of_int \<lfloor>log 2 x\<rfloor> + 1)"
    using assms by (simp add: less_powr_iff)
  from a b show ?thesis ..
qed

lemma fl_pos_bounds:
  assumes "0 < x"
  shows "x / 2 \<le> fl x \<and> fl x \<le> 2 * x"
proof -
  let ?e = "of_int \<lfloor>log 2 x\<rfloor> :: real"
  let ?u = "2 powr (?e - 52)"
  have u: "0 < ?u" by simp
  have xe: "2 powr ?e \<le> x" "x < 2 powr (?e + 1)" using binade[OF assms] by simp_all
  have ue: "2 powr ?e = ?u * 2 ^ 52" by (simp add: powr_diff)
  have ue1: "2 powr (?e + 1) = ?u * 2 ^ 53" by (simp add: powr_diff powr_add)
  have q1: "2 ^ 52 \<le> x / ?u" using xe(1) u unfolding ue by (simp add: field_simps)
  have q2: "x / ?u \<le> 2 ^ 53" using xe(2) u unfolding ue1 by (simp add: field_simps)
  have "of_int (2 ^ 52) \<le> x / ?u" "x / ?u \<le> of_int (2 ^ 53)" using q1 q2 by simp_all
  then have r: "2 ^ 52 \<le> round_half_even (x / ?u) \<and> round_half_even (x / ?u) \<le> 2 ^ 53"
    by (rule round_half_even_between)
  then have r1: "(2 ^ 52 :: real) \<le> of_int (round_half_even (x / ?u))"
    and r2: "of_int (round_half_even (x / ?u)) \<le> (2 ^ 53 :: real)"
    by (metis of_int_le_iff of_int_numeral of_int_power)+
  have f: "fl x = ?u * of_int (round_half_even (x / ?u))"
    using assms by (simp add: fl_def Let_def)
  have lo: "?u * 2 ^ 52 \<le> fl x" unfolding f using u r1 by simp
  have hi: "fl x \<le> ?u * 2 ^ 53" unfolding f using u r2 by simp
  from lo xe(2) have "x < 2 * fl x" unfolding ue1 by simp
  moreover from hi xe(1) have "fl x \<le> 2 * x" unfolding ue by simp
  ultimately show ?thesis by simp
qed

lemma fl_neg_bounds:
  assumes "x < 0"
  shows "2 * x \<le> fl x \<and> fl x < 0"
proof -
  let ?e = "of_int \<lfloor>log 2 \<bar>x\<bar>\<rfloor> :: real"
  let ?u = "2 powr (?e - 52)"
  have u: "0 < ?u" by simp
  have ax: "0 < \<bar>x\<bar>" using assms by simp
  have xe: "2 powr ?e \<le> \<bar>x\<bar>" "\<bar>x\<bar> < 2 powr (?e + 1)" using binade[OF ax] by simp_all
  have ue: "2 powr ?e = ?u * 2 ^ 52" by (simp add: powr_diff)
  have ue1: "2 powr (?e + 1) = ?u * 2 ^ 53" by (simp add: powr_diff powr_add)
  have q1: "x / ?u \<le> - (2 ^ 52)" using xe(1) u assms unfolding ue by (simp add: field_simps)
  have q2: "- (2 ^ 53) \<le> x / ?u" using xe(2) u assms unfolding ue1 by (simp add: field_simps)
  have "of_int (- (2 ^ 53)) \<le> x / ?u" "x / ?u \<le> of_int (- (2 ^ 52))" using q1 q2 by simp_all
  then have r: "- (2 ^ 53) \<le> round_half_even (x / ?u)
      \<and> round_half_even (x / ?u) \<le> - (2 ^ 52)"
    by (rule round_half_even_between)
  from r have "real_of_int (- (2 ^ 53)) \<le> of_int (round_half_even (x / ?u))"
    by (simp only: of_int_le_iff)
  then have r1: "- (2 ^ 53 :: real) \<le> of_int (round_half_even (x / ?u))" by simp
  from r have "real_of_int (round_half_even (x / ?u)) \<le> of_int (- (2 ^ 52))"
    by (simp only: of_int_le_iff)
  then have r2: "of_int (round_half_even (x / ?u)) \<le> - (2 ^ 52 :: real)" by simp
  have f: "fl x = ?u * of_int (round_half_even (x / ?u))"
    using assms by (simp add: fl_def Let_def)
  have lo: "?u * (- (2 ^ 53)) \<le> fl x" unfolding f using u r1 by (simp only: mult_le_cancel_left_pos)
  have hi: "fl x \<le> ?u * (- (2 ^ 52))" unfolding f using u r2 by (simp only: mult_le_cancel_left_pos)
  from hi u have neg: "fl x < 0" by (smt (verit) mult_pos_pos zero_less_power zero_less_numeral mult_minus_right)
  from lo xe(1) assms have "2 * x \<le> fl x" unfolding ue by simp
  with neg show ?thesis by simp
qed

lemma arctan_le_self:
  assumes "0 \<le> x"
  shows "arctan x \<le> x"
proof -
  have "0 - arctan 0 \<le> x - arctan x"
  proof (rule DERIV_nonneg_imp_nondecreasing[OF assms])
    fix t :: real
    have "((\<lambda>t. t - arctan t) has_real_derivative 1 - inverse (1 + t\<^sup>2)) (at t)"
      by (auto intro!: derivative_eq_intros)
    moreover have "inverse (1 + t\<^sup>2) \<le> 1"
      by (simp add: inverse_le_1_iff)
    ultimately show "\<exists>y. ((\<lambda>t. t - arctan t) has_real_derivative y) (at t) \<and> 0 \<le> y"
      by (intro exI[of _ "1 - inverse (1 + t\<^sup>2)"]) simp
  qed
  then show ?thesis by simp
qed

lemma fl_just_below_360:
  assumes "- (1 / 2 ^ 45) < t" "t < 0"
  shows "fl (t + 360) = 360"
proof -
  let ?x = "t + 360"
  have t1: "- 1 < t" using assms(1) by (smt (verit) divide_le_eq_1_pos one_le_power zero_less_power)
  have pos: "0 < ?x" using t1 by simp
  have "2 powr 8 \<le> ?x" "?x < 2 powr 9" using t1 assms(2) by simp_all
  then have "8 \<le> log 2 ?x" "log 2 ?x < 9"
    using pos by (simp_all add: le_log_iff log_less_iff del: powr_numeral)
  then have e: "\<lfloor>log 2 \<bar>?x\<bar>\<rfloor> = 8" using pos by (simp add: floor_eq_iff)
  have u: "2 powr (of_int 8 - 52) = (1 / 2 ^ 44 :: real)"
    by (simp add: powr_neg_numeral)
  have q: "?x / (1 / 2 ^ 44) = 6333186975989760 + t * 2 ^ 44" by simp
  have s1: "- (1 / 2) < t * 2 ^ 44" using assms(1) by (simp add: field_simps)
  have s2: "t * 2 ^ 44 < 0" using assms(2) by (simp add: mult_neg_pos)
  have fl_q: "\<lfloor>6333186975989760 + t * 2 ^ 44\<rfloor> = 6333186975989759"
  proof (rule floor_unique)
    show "of_int 6333186975989759 \<le> 6333186975989760 + t * 2 ^ 44"
      using s1 by simp
    show "6333186975989760 + t * 2 ^ 44 < of_int 6333186975989759 + 1"
      using s2 by simp
  qed
  have r: "round_half_even (6333186975989760 + t * 2 ^ 44) = 6333186975989760"
    unfolding round_half_even_def Let_def fl_q using s1 s2 by simp
  have "fl ?x = (1 / 2 ^ 44) * of_int (round_half_even (?x / (1 / 2 ^ 44)))"
    using pos unfolding fl_def Let_def e u by simp
  also have "\<dots> = (1 / 2 ^ 44) * 6333186975989760" unfolding q r by simp
  also have "\<dots> = 360" by simp
  finally show ?thesis .
qed


lemma d_mod_360_tiny_negative:
  assumes "- (1 / 2 ^ 45) < t" "t < 0"
  shows "d_mod (Val t) 360 = Val 360"
proof -
  have t1: "- 360 < t" using assms(1)
    by (smt (verit) divide_le_eq_1_pos one_le_power zero_less_power)
  have "- 1 < t / 360" "t / 360 < 0" using t1 assms(2) by simp_all
  then have "\<lceil>t / 360\<rceil> = 0" by (simp add: ceiling_eq_iff)
  then have tr: "trunc (t / 360) = 0" using \<open>t / 360 < 0\<close> by (simp add: trunc_def)
  show ?thesis
    using assms(2) fl_just_below_360[OF assms]
    by (simp add: d_mod_def Let_def tr)
qed

lemma degrees_constant_bounds: "0 < fl (180 / fl pi) \<and> fl (180 / fl pi) \<le> 360"
proof -
  have p: "pi / 2 \<le> fl pi \<and> fl pi \<le> 2 * pi" by (rule fl_pos_bounds) simp
  with pi_ge_two have p1: "1 \<le> fl pi" by linarith
  then have q: "0 < 180 / fl pi" by simp
  from p1 have q2: "180 / fl pi \<le> 180" by (simp add: field_simps)
  define w where "w = 180 / fl pi"
  from q q2 have w: "0 < w" "w \<le> 180" by (simp_all add: w_def)
  from fl_pos_bounds[OF w(1)] w have "0 < fl w \<and> fl w \<le> 360" by linarith
  then show ?thesis by (simp only: w_def)
qed

text \<open>
  C6. On binary64 floats the wrap of \<^verbatim>\<open>azimuth\<close> can return 360. For the vector
  \<open>(-2^-70, 1, 0)\<close>, with \<open>z = 0\<close> and no negation, \<open>atan2(x, y)\<close> in degrees is a negative
  number of magnitude below \<open>2^-45\<close>; its remainder by 360 is that number plus 360, and
  the sum rounds to \<open>360.0\<close>, outside \<open>[0, 360)\<close>.
\<close>

theorem azimuth_double_reaches_360:
  "azimuth_double \<lparr>dv_x = Val (- (1 / 2 ^ 70)), dv_y = Val 1, dv_z = Val 0\<rparr>
     = (Val 360, \<lparr>dv_x = Val (- (1 / 2 ^ 70)), dv_y = Val 1, dv_z = Val 0\<rparr>)"
proof -
  let ?a = "arctan (- (1 / 2 ^ 70))"
  have a_neg: "?a < 0" by simp
  have "arctan (1 / 2 ^ 70) \<le> 1 / 2 ^ 70" by (rule arctan_le_self) simp
  then have a_lo: "- (1 / 2 ^ 70) \<le> ?a" by (simp add: arctan_minus)
  have at: "atan2 (- (1 / 2 ^ 70)) 1 = ?a" by (simp add: atan2_def)
  let ?r = "fl ?a"
  have r: "2 * ?a \<le> ?r \<and> ?r < 0" using a_neg by (rule fl_neg_bounds)
  with a_lo have r_lo: "- (2 / 2 ^ 70) \<le> ?r" by linarith
  let ?c = "fl (180 / fl pi)"
  have c: "0 < ?c \<and> ?c \<le> 360" by (rule degrees_constant_bounds)
  have p_neg: "?r * ?c < 0" using r c by (simp add: mult_neg_pos)
  have "- ?r \<le> 2 / 2 ^ 70" using r_lo by simp
  moreover have "0 \<le> - ?r" using r by simp
  ultimately have "(- ?r) * ?c \<le> (2 / 2 ^ 70) * 360"
    using c by (intro mult_mono) simp_all
  then have p_lo: "- (720 / 2 ^ 70) \<le> ?r * ?c" by simp
  let ?t = "fl (?r * ?c)"
  have t: "2 * (?r * ?c) \<le> ?t \<and> ?t < 0" using p_neg by (rule fl_neg_bounds)
  with p_lo have "- (1440 / 2 ^ 70) \<le> ?t" by linarith
  moreover have "- (1 / 2 ^ 45) < - (1440 / 2 ^ 70 :: real)" by simp
  ultimately have t_lo: "- (1 / 2 ^ 45) < ?t" by linarith
  from t have t_neg: "?t < 0" by simp
  have m: "d_mod (Val ?t) 360 = Val 360" using t_lo t_neg by (rule d_mod_360_tiny_negative)
  have "d_atan2 (Val (- (1 / 2 ^ 70))) (Val 1) = Val ?r"
    by (simp only: d_atan2_def d_val.simps at) simp
  then have "d_mod (d_degrees (d_atan2 (Val (- (1 / 2 ^ 70))) (Val 1))) 360 = Val 360"
    by (simp only: d_degrees.simps m)
  then show ?thesis
    by (simp add: azimuth_double_def Let_def)
qed

lemma degrees_mono_bounds: "0 \<le> r \<Longrightarrow> r \<le> pi \<Longrightarrow> 0 \<le> degrees r \<and> degrees r \<le> 180"
proof -
  assume r: "0 \<le> r" "r \<le> pi"
  have pos: "0 < pi" by simp
  from r(1) have lo: "0 \<le> r * (180 / pi)" by simp
  from r(2) pos have "r * (180 / pi) \<le> pi * (180 / pi)"
    by (intro mult_right_mono) simp_all
  then have hi: "r * (180 / pi) \<le> 180" by simp
  from lo hi show ?thesis by (simp only: degrees_def)
qed

text \<open>
  C8. \<^verbatim>\<open>dip\<close> returns, for every vector, a value between 0 and 180 degrees: the
  horizontal length is not negative, so the angle of \<open>atan2\<close> lies in \<open>[0, pi]\<close>.
\<close>

theorem dip_in_range: "\<exists>d. dip v = Inr d \<and> 0 \<le> d \<and> d \<le> 180"
proof -
  let ?h = "sqrt ((v_x v)\<^sup>2 + (v_y v)\<^sup>2)"
  have "0 \<le> ?h" by simp
  then have "0 \<le> atan2 ?h (v_z v) \<and> atan2 ?h (v_z v) \<le> pi" by (rule atan2_nonneg)
  then have "0 \<le> degrees (atan2 ?h (v_z v)) \<and> degrees (atan2 ?h (v_z v)) \<le> 180"
    by (simp add: degrees_mono_bounds)
  then show ?thesis by (simp add: dip_Inr)
qed

section \<open>Face: the vector ab and the area\<close>

lemma cross_of_reversed:
  "cross (Vector3D (Args2 p2 p1)) (Vector3D (Args2 p3 p1)) =
   cross (Vector3D (Args2 p1 p2)) (Vector3D (Args2 p1 p3))"
  by (simp add: cross_def algebra_simps)

lemma length_v_multiply_minus: "length_v (multiply_minus v) = length_v v"
  by (simp add: length_v_def multiply_minus_def)

lemma length_v_azimuth: "length_v (snd (azimuth v)) = length_v v"
  by (simp add: azimuth_snd length_v_multiply_minus)

lemma ab_vector_Face:
  "ab_vector (fst (Face p1 p2 p3)) = cross (Vector3D (Args2 p2 p1)) (Vector3D (Args2 p3 p1))"
  using Face_points[of p1 p2 p3] by (simp add: ab_vector_def Let_def del: Vector3D.simps)

text \<open>
  C7, as stated, fails for the attribute \<^verbatim>\<open>ab\<close> of a constructed face: the constructor
  calls \<^verbatim>\<open>self.ab.azimuth()\<close>, which negates the stored vector when its z component is
  negative. For the points \<open>(0,0,0)\<close>, \<open>(0,1,0)\<close>, \<open>(1,0,0)\<close> the cross product is
  \<open>(0,0,-1)\<close> and the face holds \<open>(0,0,1)\<close>.
\<close>

theorem face_ab_negated_cross:
  "cross (Vector3D (Args2 (Point 0 0 0) (Point 0 1 0)))
         (Vector3D (Args2 (Point 0 0 0) (Point 1 0 0))) = Vector3D (Args3 0 0 (- 1))
   \<and> f_ab (fst (Face (Point 0 0 0) (Point 0 1 0) (Point 1 0 0))) = Some (Vector3D (Args3 0 0 1))
   \<and> f_ab (fst (Face (Point 0 0 0) (Point 0 1 0) (Point 1 0 0))) \<noteq>
       Some (cross (Vector3D (Args2 (Point 0 0 0) (Point 0 1 0)))
                   (Vector3D (Args2 (Point 0 0 0) (Point 1 0 0))))"
  by (simp add: Face_ab azimuth_snd cross_def multiply_minus_def Point_def)

text \<open>
  C7, amended. \<^verbatim>\<open>ab_vector\<close> returns the cross product \<open>cross(P2 - P1, P3 - P1)\<close>. The
  attribute \<^verbatim>\<open>ab\<close> of the constructed face is that cross product when its z component is
  not negative and its negation otherwise. The area is half the length of the cross
  product, which is also half the length of the stored \<^verbatim>\<open>ab\<close>. The face over \<open>(0,0,0)\<close>,
  \<open>(1,0,0)\<close>, \<open>(0,1,0)\<close> has area \<open>0.5\<close>.
\<close>

theorem face_ab_and_area:
  "ab_vector (fst (Face P1 P2 P3)) = cross (Vector3D (Args2 P1 P2)) (Vector3D (Args2 P1 P3))
   \<and> f_ab (fst (Face P1 P2 P3)) =
       Some (if v_z (cross (Vector3D (Args2 P1 P2)) (Vector3D (Args2 P1 P3))) < 0
             then multiply_minus (cross (Vector3D (Args2 P1 P2)) (Vector3D (Args2 P1 P3)))
             else cross (Vector3D (Args2 P1 P2)) (Vector3D (Args2 P1 P3)))
   \<and> (\<exists>ab l. f_ab (fst (Face P1 P2 P3)) = Some ab \<and> length_v ab = Inr l
         \<and> length_v (cross (Vector3D (Args2 P1 P2)) (Vector3D (Args2 P1 P3))) = Inr l
         \<and> f_area (fst (Face P1 P2 P3)) = Some (l / 2))
   \<and> f_area (fst (Face (Point 0 0 0) (Point 1 0 0) (Point 0 1 0))) = Some (1 / 2)"
proof -
  let ?c = "cross (Vector3D (Args2 P1 P2)) (Vector3D (Args2 P1 P3))"
  let ?F = "fst (Face P1 P2 P3)"
  have abv: "ab_vector ?F = ?c"
    by (simp only: ab_vector_Face cross_of_reversed)
  have stored: "f_ab ?F = Some (snd (azimuth ?c))"
    by (simp only: Face_ab cross_of_reversed)
  have stored_if: "f_ab ?F = Some (if v_z ?c < 0 then multiply_minus ?c else ?c)"
    by (simp only: stored azimuth_snd)
  obtain l where l: "length_v ?c = Inr l" by (simp add: length_v_Inr)
  then have l': "length_v (snd (azimuth ?c)) = Inr l" by (simp only: length_v_azimuth)
  have "f_area ?F = (case length_v (snd (azimuth ?c)) of Inl e \<Rightarrow> None | Inr l \<Rightarrow> Some (l / 2))"
    by (simp only: Face_area cross_of_reversed)
  with l' have area: "f_area ?F = Some (l / 2)" by simp
  from stored l l' area
  have ex: "\<exists>ab l. f_ab ?F = Some ab \<and> length_v ab = Inr l \<and> length_v ?c = Inr l
         \<and> f_area ?F = Some (l / 2)"
    by blast
  have half: "f_area (fst (Face (Point 0 0 0) (Point 1 0 0) (Point 0 1 0))) = Some (1 / 2)"
    by (simp add: Face_area azimuth_snd cross_def multiply_minus_def Point_def length_v_def
        py_sqrt_def)
  from abv stored_if ex half show ?thesis by blast
qed

section \<open>Edge: degenerate and transformed vectors\<close>

lemma degrees_with_zero_left:
  "length_v a = Inr 0 \<Longrightarrow> degrees_with a b = (0, [Error_degrees_with ZeroDivisionError])"
  by (simp add: degrees_with_def degrees_with_raw_def Let_def length_v_Inr[of b] py_div_def)

lemma degrees_with_zero_right:
  "length_v b = Inr 0 \<Longrightarrow> degrees_with a b = (0, [Error_degrees_with ZeroDivisionError])"
  by (simp add: degrees_with_def degrees_with_raw_def Let_def length_v_Inr[of a] py_div_def)

lemma Edge_rotated_azimuth: "e_rotated_azimuth (fst (Edge p1 p2)) = Some 0"
  by (simp add: Edge_def Let_def length_v_Inr dip_Inr edge2face_Inr split: prod.splits)

lemma Edge_dip:
  "e_dip (fst (Edge p1 p2)) =
     (case dip (snd (azimuth (Vector3D (Args2 p1 p2)))) of Inl e \<Rightarrow> None | Inr d \<Rightarrow> Some d)"
  by (simp add: Edge_def Let_def length_v_Inr dip_Inr edge2face_Inr split: prod.splits)

lemma Edge_edge_fields_set:
  "e_edge_azimuth (fst (Edge p1 p2)) \<noteq> None \<and> e_edge_dip (fst (Edge p1 p2)) \<noteq> None"
  by (simp add: Edge_edge_azimuth Edge_edge_dip edge2face_Inr dip_Inr)

lemma azimuth_zero_vector: "azimuth (Vector3D (Args2 p p)) = (0, Vector3D (Args2 p p))"
  by (simp add: azimuth_def Let_def atan2_def degrees_def py_mod_def)

text \<open>
  C9. The constructor of an edge between two coincident points logs nothing and assigns
  every attribute: the length is 0, the azimuth and dip of the zero vector are 0, and the
  batch returns the record. \<^verbatim>\<open>degrees_with\<close> with a vector of length 0 on either side
  catches the division by zero, logs it, and returns 0.
\<close>

theorem coincident_points_degrade_to_zero:
  "snd (Edge p p) = []
   \<and> e_length (fst (Edge p p)) = Some 0
   \<and> e_azimuth (fst (Edge p p)) = Some 0
   \<and> e_dip (fst (Edge p p)) = Some 0
   \<and> e_edge_azimuth (fst (Edge p p)) \<noteq> None
   \<and> e_edge_dip (fst (Edge p p)) \<noteq> None
   \<and> e_rotated_azimuth (fst (Edge p p)) = Some 0
   \<and> length (fst (get_processed_edges \<lparr>faces = fs, edges = [[p, p]]\<rparr> az_real az_model)) = 1
   \<and> snd (get_processed_edges \<lparr>faces = fs, edges = [[p, p]]\<rparr> az_real az_model)
       = [Info_processed_edges 1]
   \<and> length_v (Vector3D (Args2 p p)) = Inr 0
   \<and> degrees_with (Vector3D (Args2 p p)) w = (0, [Error_degrees_with ZeroDivisionError])
   \<and> degrees_with w (Vector3D (Args2 p p)) = (0, [Error_degrees_with ZeroDivisionError])"
proof -
  have len0: "length_v (Vector3D (Args2 p p)) = Inr 0"
    by (simp add: length_v_def py_sqrt_def)
  have el: "e_length (fst (Edge p p)) = Some 0" by (simp add: Edge_length)
  have ea: "e_azimuth (fst (Edge p p)) = Some 0"
    by (simp only: Edge_azimuth azimuth_zero_vector fst_conv)
  have "dip (Vector3D (Args2 p p)) = Inr 0"
    by (simp add: dip_def py_sqrt_def atan2_def degrees_def)
  then have "dip (snd (azimuth (Vector3D (Args2 p p)))) = Inr 0"
    by (simp only: azimuth_zero_vector snd_conv)
  then have ed: "e_dip (fst (Edge p p)) = Some 0" by (simp only: Edge_dip sum.case)
  have batch: "length (fst (get_processed_edges \<lparr>faces = fs, edges = [[p, p]]\<rparr>
      az_real az_model)) = 1"
    by (simp add: get_processed_edges_fst edges_loop_length del: edges_loop.simps)
  have batch_log: "snd (get_processed_edges \<lparr>faces = fs, edges = [[p, p]]\<rparr> az_real az_model)
       = [Info_processed_edges 1]"
    by (simp add: get_processed_edges_snd edges_loop_snd edges_loop_length
        del: edges_loop.simps)
  from Edge_log[of p p] el ea ed Edge_edge_fields_set[of p p] Edge_rotated_azimuth[of p p]
    batch batch_log len0 degrees_with_zero_left[OF len0, of w]
    degrees_with_zero_right[OF len0, of w]
  show ?thesis by blast
qed

end
